theory Spec2Isabelle
  imports Main "HOL-Library.Char_ord" "HOL-Library.List_Lexorder" "HOL-Library.State_Monad"
begin

section \<open>Data model\<close>

text \<open>
  Go strings and byte slices are sequences of 8-bit bytes; both are modelled as lists of
  \<^typ>\<open>char\<close> (an 8-bit type), so that the conversion \<^verbatim>\<open>[]byte(s)\<close> is the identity.
  Strings are compared byte-wise and lexicographically, as Go's \<^verbatim>\<open><\<close> on strings does.
\<close>

type_synonym byte = char

text \<open>
  An \<^verbatim>\<open>error\<close> value: \<open>Error msg\<close> is what \<^verbatim>\<open>errors.New(msg)\<close> builds, and
  \<open>errOutOfEntropy\<close> is the package variable of that name, declared in another file of the
  package. \<^verbatim>\<open>nil\<close> is \<^term>\<open>None\<close> of \<open>error option\<close>.
\<close>

datatype error = Error string | errOutOfEntropy

text \<open>
  \<^verbatim>\<open>type Context map[string]string\<close>. A Go map has unique keys and an iteration order that
  is left open; it is modelled as the list of its entries in the order \<^verbatim>\<open>range\<close> visits
  them, with \<open>distinct (map fst c)\<close> as the invariant of a map. The \<^verbatim>\<open>nil\<close> map is
  \<^term>\<open>None\<close> of \<open>Context option\<close> where the code tests for it.
\<close>

type_synonym Context = "(string \<times> string) list"

text \<open>\<^verbatim>\<open>c[k]\<close>: the value stored under \<open>k\<close>, the empty string for a missing key.\<close>

definition index :: "Context \<Rightarrow> string \<Rightarrow> string" where
  "index c k = (case map_of c k of Some v \<Rightarrow> v | None \<Rightarrow> [])"

text \<open>\<^verbatim>\<open>for k := range c { sortedKeys = append(sortedKeys, k) }\<close>\<close>

fun rangeKeys :: "Context \<Rightarrow> string list \<Rightarrow> string list" where
  "rangeKeys [] sortedKeys = sortedKeys"
| "rangeKeys ((k, v) # c) sortedKeys = rangeKeys c (sortedKeys @ [k])"

abbreviation quote :: char where
  "quote \<equiv> CHR 0x22"

section \<open>Canonical encoding of a context\<close>

subsection \<open>The stream form\<close>

text \<open>
  An \<^verbatim>\<open>io.Writer\<close> is a state \<open>'w\<close> with a write operation: \<^verbatim>\<open>io.WriteString(w, s)\<close>
  returns the writer after the call, the number of bytes written and an error or \<^verbatim>\<open>nil\<close>.
  The byte count \<open>n\<close> is an \<^verbatim>\<open>int64\<close>; it is modelled as an unbounded integer, the sums
  of lengths staying far below \<open>2^63\<close>.
\<close>

type_synonym 'w writer = "'w \<Rightarrow> string \<Rightarrow> 'w \<times> int \<times> error option"

text \<open>
  The loop \<^verbatim>\<open>for i, k := range sortedKeys\<close> of \<^verbatim>\<open>WriteTo\<close>: \<open>len\<close> is
  \<^verbatim>\<open>len(sortedKeys)\<close>, \<open>i\<close> the index of the key at the head of the remaining keys.
  An error of the writer ends the loop and the function.
\<close>

fun WriteTo_loop ::
  "'w writer \<Rightarrow> Context \<Rightarrow> nat \<Rightarrow> nat \<Rightarrow> string list \<Rightarrow> 'w \<Rightarrow> int \<Rightarrow> 'w \<times> int \<times> error option"
where
  "WriteTo_loop wr c len i [] w n = (w, n, None)"
| "WriteTo_loop wr c len i (k # ks) w n =
     (let s = [quote] @ k @ [quote] @ '':'' @ [quote] @ index c k @ [quote] @ '','';
          s = (if int i = int len - 1 then take (length s - 1) s else s)
      in case wr w s of
           (w', nn, Some e) \<Rightarrow> (w', n + nn, Some e)
         | (w', nn, None) \<Rightarrow> WriteTo_loop wr c len (Suc i) ks w' (n + nn))"

definition WriteTo :: "'w writer \<Rightarrow> Context \<Rightarrow> 'w \<Rightarrow> 'w \<times> int \<times> error option" where
  "WriteTo wr c w =
     (let sortedKeys = sort (rangeKeys c [])
      in case wr w ''{'' of
           (w1, nn, Some e) \<Rightarrow> (w1, 0 + nn, Some e)
         | (w1, nn, None) \<Rightarrow>
             (case WriteTo_loop wr c (length sortedKeys) 0 sortedKeys w1 (0 + nn) of
                (w2, n, Some e) \<Rightarrow> (w2, n, Some e)
              | (w2, n, None) \<Rightarrow>
                  (case wr w2 ''}'' of (w3, nn, err) \<Rightarrow> (w3, n + nn, err))))"

text \<open>A writer that never fails: a growing byte buffer, each write appending all of \<open>s\<close>.\<close>

definition bufferWrite :: "byte list writer" where
  "bufferWrite w s = (w @ s, int (length s), None)"

subsection \<open>The buffer form\<close>

text \<open>
  The fast path of \<^verbatim>\<open>AppendTo\<close> for a map of one entry:
  \<^verbatim>\<open>for k, v := range c { ... }\<close> writing to the buffer \<open>out\<close>.
\<close>

fun AppendTo_single :: "Context \<Rightarrow> byte list \<Rightarrow> byte list" where
  "AppendTo_single [] out = out"
| "AppendTo_single ((k, v) # c) out =
     AppendTo_single c (out @ (''{'' @ [quote]) @ k @ ([quote] @ '':'' @ [quote]) @ v @ ([quote] @ ''}''))"

text \<open>The general path: the loop over the sorted keys, then the whole of it.\<close>

fun AppendTo_loop :: "Context \<Rightarrow> nat \<Rightarrow> nat \<Rightarrow> string list \<Rightarrow> byte list \<Rightarrow> byte list" where
  "AppendTo_loop c len i [] out = out"
| "AppendTo_loop c len i (k # ks) out =
     (let out = out @ [quote];
          out = out @ k;
          out = out @ ([quote] @ '':'' @ [quote]);
          out = out @ index c k;
          out = out @ [quote];
          out = (if int i < int len - 1 then out @ '','' else out)
      in AppendTo_loop c len (Suc i) ks out)"

definition AppendTo_sorted :: "Context \<Rightarrow> byte list \<Rightarrow> byte list" where
  "AppendTo_sorted c dst =
     (let sortedKeys = sort (rangeKeys c []);
          out = dst @ ''{'';
          out = AppendTo_loop c (length sortedKeys) 0 sortedKeys out
      in out @ ''}'')"

definition AppendTo :: "Context \<Rightarrow> byte list \<Rightarrow> byte list" where
  "AppendTo c dst =
     (if length c = 0 then dst @ ''{'' @ ''}''
      else if length c = 1 then AppendTo_single c dst
      else AppendTo_sorted c dst)"

section \<open>The trusted primitives\<close>

text \<open>
  The keyed hash, the authenticated encryption and the entropy source are libraries outside
  the repository; the model takes them as parameters.
  \<^item> \<open>rand_Reader\<close>: the bytes \<^verbatim>\<open>crypto/rand.Reader\<close> can still deliver.
  \<^item> \<open>hmac_sha256 key msg\<close>: the HMAC-SHA-256 tag of \<open>msg\<close> under \<open>key\<close>.
  \<^item> \<open>sio_Encrypt key plaintext\<close>: the bytes \<^verbatim>\<open>sio.Encrypt\<close> writes to its destination
    and its error; its first result \<open>n\<close> is, by its contract, the number of bytes written.
  \<^item> \<open>sio_DecryptBuffer key src\<close>: the plaintext \<^verbatim>\<open>sio.DecryptBuffer\<close> produces and its
    error, as the pair Go returns.
  \<^item> \<open>sio_DecryptBuffer_dst dst key src\<close>: what that call leaves in the array underlying
    its destination slice, \<open>dst\<close> being the content of the array before the call. The slice
    returned by the call may or may not share this array; that is the library's doing, and
    the model does not decide it.
\<close>

record primitives =
  rand_Reader :: "byte list"
  hmac_sha256 :: "byte list \<Rightarrow> byte list \<Rightarrow> byte list"
  sio_Encrypt :: "byte list \<Rightarrow> byte list \<Rightarrow> byte list \<times> error option"
  sio_DecryptBuffer :: "byte list \<Rightarrow> byte list \<Rightarrow> byte list \<times> error option"
  sio_DecryptBuffer_dst :: "byte list \<Rightarrow> byte list \<Rightarrow> byte list \<Rightarrow> byte list"

text \<open>
  \<^verbatim>\<open>io.ReadFull(r, buf)\<close> fills \<open>buf\<close> completely or reports an error, leaving the bytes
  it could read at the front of \<open>buf\<close>.
\<close>

definition ReadFull :: "byte list \<Rightarrow> byte list \<Rightarrow> byte list \<times> error option" where
  "ReadFull r buf =
     (if length buf \<le> length r then (take (length buf) r, None)
      else (r @ drop (length r) buf,
            Some (Error (if r = [] then ''EOF'' else ''unexpected EOF''))))"

text \<open>
  Appending \<open>out\<close> to the empty slice \<^verbatim>\<open>key[:0]\<close> of an array \<open>key\<close>: the slice has the
  capacity of the array, so an output that fits is written into the array itself, and a
  longer one goes to a fresh allocation and leaves the array as it was. The result is the
  content of the array afterwards.
\<close>

definition appendInto :: "byte list \<Rightarrow> byte list \<Rightarrow> byte list" where
  "appendInto key out =
     (if length out \<le> length key then out @ drop (length out) key else key)"

text \<open>
  A running \<^verbatim>\<open>hash.Hash\<close> made by \<^verbatim>\<open>hmac.New\<close>: the key and the message written so far.
  \<^verbatim>\<open>Write\<close> extends the message, \<^verbatim>\<open>Sum\<close> yields the tag of the whole message.
\<close>

type_synonym mac = "byte list \<times> byte list"

definition hmac_New :: "byte list \<Rightarrow> mac" where
  "hmac_New key = (key, [])"

fun mac_Write :: "mac \<Rightarrow> byte list \<Rightarrow> mac" where
  "mac_Write (key, msg) p = (key, msg @ p)"

fun mac_Sum :: "primitives \<Rightarrow> mac \<Rightarrow> byte list" where
  "mac_Sum P (key, msg) = hmac_sha256 P key msg"

section \<open>The master-key backend\<close>

record masterKeyKMS =
  keyID :: string
  masterKey :: "byte list"

record KMSInfo =
  Endpoints :: "string list"
  Name :: string
  AuthType :: string

text \<open>The zero value of \<^verbatim>\<open>[32]byte\<close>.\<close>

definition zeroKey :: "byte list" where
  "zeroKey = replicate 32 (CHR 0x00)"

text \<open>
  A call either returns its results or ends in the fatal-failure handler and returns nothing.
\<close>

datatype 'a outcome = Fatal error | Returned 'a

text \<open>
  Modelled from the spec: \<^verbatim>\<open>logger.CriticalIf\<close> is declared in the logger package, outside
  the files at hand. The spec (4.3, 6, 7) has a critical condition reported to a process-level
  fault handler that halts the operation, which then returns no key; with a \<^verbatim>\<open>nil\<close>
  error \<^verbatim>\<open>CriticalIf\<close> does nothing and the caller goes on with \<open>rest\<close>.
\<close>

fun CriticalIf :: "error option \<Rightarrow> 'a outcome \<Rightarrow> 'a outcome" where
  "CriticalIf None rest = rest"
| "CriticalIf (Some e) rest = Fatal e"

definition NewMasterKey :: "string \<Rightarrow> byte list \<Rightarrow> masterKeyKMS" where
  "NewMasterKey kid key = \<lparr>keyID = kid, masterKey = key\<rparr>"

definition DefaultKeyID :: "masterKeyKMS \<Rightarrow> string" where
  "DefaultKeyID kms = keyID kms"

definition CreateKey :: "masterKeyKMS \<Rightarrow> string \<Rightarrow> error option" where
  "CreateKey kms kid =
     Some (Error ''crypto: creating keys is not supported by a static master key'')"

definition Info :: "masterKeyKMS \<Rightarrow> KMSInfo" where
  "Info kms = \<lparr>Endpoints = [], Name = [], AuthType = ''master-key''\<rparr>"

definition deriveKey :: "primitives \<Rightarrow> masterKeyKMS \<Rightarrow> string \<Rightarrow> Context option \<Rightarrow> byte list" where
  "deriveKey P kms kid context =
     (let context = (case context of None \<Rightarrow> [] | Some c \<Rightarrow> c);
          mac = hmac_New (masterKey kms);
          mac = mac_Write mac kid;
          mac = mac_Write mac (AppendTo context [])
      in appendInto zeroKey (mac_Sum P mac))"

definition GenerateKey ::
  "primitives \<Rightarrow> masterKeyKMS \<Rightarrow> string \<Rightarrow> Context option
     \<Rightarrow> (byte list \<times> byte list \<times> error option) outcome"
where
  "GenerateKey P kms kid ctx =
     (case ReadFull (rand_Reader P) zeroKey of (key, err) \<Rightarrow>
        CriticalIf (if err \<noteq> None then Some errOutOfEntropy else None)
          (let derivedKey = deriveKey P kms kid ctx
           in case sio_Encrypt P derivedKey key of (buffer, err') \<Rightarrow>
                (let n = int (length buffer)
                 in CriticalIf
                      (if err' \<noteq> None \<or> n \<noteq> 64
                       then Some (Error ''KMS: unable to encrypt data key'') else None)
                      (Returned (key, buffer, None)))))"

text \<open>
  \<^verbatim>\<open>UnsealKey\<close> passes the empty slice \<^verbatim>\<open>key[:0]\<close> of its result array as the destination
  of the decryption and returns the array \<open>key\<close>, not the slice \<open>out\<close>: the key it returns is
  what the decryption left in that array.
\<close>

definition UnsealKey ::
  "primitives \<Rightarrow> masterKeyKMS \<Rightarrow> string \<Rightarrow> byte list \<Rightarrow> Context option
     \<Rightarrow> byte list \<times> error option"
where
  "UnsealKey P kms kid sealedKey ctx =
     (let derivedKey = deriveKey P kms kid ctx
      in case sio_DecryptBuffer P derivedKey sealedKey of (out, err) \<Rightarrow>
           (let key = sio_DecryptBuffer_dst P zeroKey derivedKey sealedKey
            in if err \<noteq> None \<or> length out \<noteq> 32 then (key, err) else (key, None)))"

subsection \<open>The methods as transformers of the backend\<close>

text \<open>
  The methods have the pointer receiver \<^verbatim>\<open>kms *masterKeyKMS\<close>, so each can read and write
  the fields of the backend. Here each method body is embedded as a computation in the state
  monad over the struct the receiver points to: reading a field is \<open>get\<close>, writing one would
  be \<open>set\<close>, and a call of another method on the receiver is run in sequence on the same
  state. The result of the computation is what the method returns; its final state is the
  backend after the call.
\<close>

definition DefaultKeyID_m :: "(masterKeyKMS, string) state" where
  "DefaultKeyID_m = do {
     kms \<leftarrow> State_Monad.get;
     State_Monad.return (keyID kms)
   }"

definition CreateKey_m :: "string \<Rightarrow> (masterKeyKMS, error option) state" where
  "CreateKey_m kid =
     State_Monad.return
       (Some (Error ''crypto: creating keys is not supported by a static master key''))"

definition Info_m :: "(masterKeyKMS, KMSInfo) state" where
  "Info_m = State_Monad.return \<lparr>Endpoints = [], Name = [], AuthType = ''master-key''\<rparr>"

definition deriveKey_m ::
  "primitives \<Rightarrow> string \<Rightarrow> Context option \<Rightarrow> (masterKeyKMS, byte list) state"
where
  "deriveKey_m P kid context = do {
     let context = (case context of None \<Rightarrow> [] | Some c \<Rightarrow> c);
     kms \<leftarrow> State_Monad.get;
     let mac = hmac_New (masterKey kms);
     let mac = mac_Write mac kid;
     let mac = mac_Write mac (AppendTo context []);
     State_Monad.return (appendInto zeroKey (mac_Sum P mac))
   }"

text \<open>
  Modelled from the spec: \<^verbatim>\<open>logger.CriticalIf\<close> inside a method, as \<open>CriticalIf\<close> above. A
  critical condition halts the operation where it stands, with the backend as it is at that
  point; with a \<^verbatim>\<open>nil\<close> error the method goes on with \<open>rest\<close>.
\<close>

fun CriticalIf_m ::
  "error option \<Rightarrow> (masterKeyKMS, 'a outcome) state \<Rightarrow> (masterKeyKMS, 'a outcome) state"
where
  "CriticalIf_m None rest = rest"
| "CriticalIf_m (Some e) rest = State_Monad.return (Fatal e)"

definition GenerateKey_m ::
  "primitives \<Rightarrow> string \<Rightarrow> Context option
     \<Rightarrow> (masterKeyKMS, (byte list \<times> byte list \<times> error option) outcome) state"
where
  "GenerateKey_m P kid ctx =
     (case ReadFull (rand_Reader P) zeroKey of (key, err) \<Rightarrow>
        CriticalIf_m (if err \<noteq> None then Some errOutOfEntropy else None)
          (do {
             derivedKey \<leftarrow> deriveKey_m P kid ctx;
             (case sio_Encrypt P derivedKey key of (buffer, err') \<Rightarrow>
                (let n = int (length buffer)
                 in CriticalIf_m
                      (if err' \<noteq> None \<or> n \<noteq> 64
                       then Some (Error ''KMS: unable to encrypt data key'') else None)
                      (State_Monad.return (Returned (key, buffer, None)))))
           }))"

definition UnsealKey_m ::
  "primitives \<Rightarrow> string \<Rightarrow> byte list \<Rightarrow> Context option
     \<Rightarrow> (masterKeyKMS, byte list \<times> error option) state"
where
  "UnsealKey_m P kid sealedKey ctx = do {
     derivedKey \<leftarrow> deriveKey_m P kid ctx;
     (case sio_DecryptBuffer P derivedKey sealedKey of (out, err) \<Rightarrow>
        (let key = sio_DecryptBuffer_dst P zeroKey derivedKey sealedKey
         in if err \<noteq> None \<or> length out \<noteq> 32
            then State_Monad.return (key, err) else State_Monad.return (key, None)))
   }"

subsection \<open>Sequences of calls on one backend\<close>

text \<open>
  A call of one of the five methods of the interface, and what it answers. Every call is
  made in the world as it is at that moment: the primitives, with the bytes the entropy
  source can deliver then.
\<close>

datatype call =
    CallDefaultKeyID
  | CallCreateKey string
  | CallGenerateKey string "Context option"
  | CallUnsealKey string "byte list" "Context option"
  | CallInfo

datatype response =
    GotKeyID string
  | GotCreate "error option"
  | GotGenerate "(byte list \<times> byte list \<times> error option) outcome"
  | GotUnseal "byte list \<times> error option"
  | GotInfo KMSInfo

fun invoke :: "primitives \<Rightarrow> call \<Rightarrow> (masterKeyKMS, response) state" where
  "invoke P CallDefaultKeyID = do { r \<leftarrow> DefaultKeyID_m; State_Monad.return (GotKeyID r) }"
| "invoke P (CallCreateKey kid) = do { r \<leftarrow> CreateKey_m kid; State_Monad.return (GotCreate r) }"
| "invoke P (CallGenerateKey kid ctx) =
     do { r \<leftarrow> GenerateKey_m P kid ctx; State_Monad.return (GotGenerate r) }"
| "invoke P (CallUnsealKey kid sealedKey ctx) =
     do { r \<leftarrow> UnsealKey_m P kid sealedKey ctx; State_Monad.return (GotUnseal r) }"
| "invoke P CallInfo = do { r \<leftarrow> Info_m; State_Monad.return (GotInfo r) }"

text \<open>
  Running a sequence of calls, each with the primitives of its moment: the backend after the
  last call that ran. A fatal failure halts the process, and no later call runs.
\<close>

fun run :: "masterKeyKMS \<Rightarrow> (primitives \<times> call) list \<Rightarrow> masterKeyKMS" where
  "run kms [] = kms"
| "run kms ((P, c) # cs) =
     (case run_state (invoke P c) kms of
        (GotGenerate (Fatal e), kms') \<Rightarrow> kms'
      | (r, kms') \<Rightarrow> run kms' cs)"

section \<open>An executable instance of the primitives\<close>

text \<open>
  For evaluating the model on concrete inputs the primitives are instantiated with simple
  functions that keep the shapes of the real ones: a 32-byte keyed tag, a sealing that adds
  32 bytes to its payload, and an opening that rejects a blob sealed under another key and
  appends its plaintext to the destination in place when it fits.
\<close>

definition toy_hmac :: "byte list \<Rightarrow> byte list \<Rightarrow> byte list" where
  "toy_hmac key msg = take 32 (msg @ key @ zeroKey)"

definition toy_Encrypt :: "byte list \<Rightarrow> byte list \<Rightarrow> byte list \<times> error option" where
  "toy_Encrypt key plaintext = (key @ plaintext, None)"

definition toy_DecryptBuffer :: "byte list \<Rightarrow> byte list \<Rightarrow> byte list \<times> error option" where
  "toy_DecryptBuffer key src =
     (if take (length key) src = key then (drop (length key) src, None)
      else ([], Some (Error ''sio: data is not authentic'')))"

definition toy_DecryptBuffer_dst :: "byte list \<Rightarrow> byte list \<Rightarrow> byte list \<Rightarrow> byte list" where
  "toy_DecryptBuffer_dst dst key src = appendInto dst (fst (toy_DecryptBuffer key src))"

definition toy :: "byte list \<Rightarrow> primitives" where
  "toy r = \<lparr>rand_Reader = r, hmac_sha256 = toy_hmac,
            sio_Encrypt = toy_Encrypt, sio_DecryptBuffer = toy_DecryptBuffer,
            sio_DecryptBuffer_dst = toy_DecryptBuffer_dst\<rparr>"

text \<open>A sealing without framing, whose output is as long as its payload.\<close>

definition bare :: "byte list \<Rightarrow> primitives" where
  "bare r = (toy r)\<lparr>sio_Encrypt := (\<lambda>key plaintext. (plaintext, None))\<rparr>"

text \<open>
  Concrete inputs: 32 bytes of entropy, the backend over the all-zero master key, the context
  of a bucket and an object with its entries in an order that is not the sorted one, and the
  blobs obtained by sealing under these.
\<close>

definition key0 :: "byte list" where
  "key0 = replicate 32 (CHR ''k'')"

definition kms0 :: masterKeyKMS where
  "kms0 = NewMasterKey ''default'' zeroKey"

definition ctx0 :: "Context option" where
  "ctx0 = Some [(''object'', ''o1''), (''bucket'', ''b1'')]"

definition blob0 :: "byte list" where
  "blob0 = deriveKey (toy key0) kms0 ''default'' ctx0 @ key0"

definition ctxX :: "Context option" where
  "ctxX = Some [(''x'', ''1'')]"

definition blobA :: "byte list" where
  "blobA = deriveKey (toy key0) kms0 ''A'' ctxX @ key0"

text \<open>A blob that opens, under the key derived for \<open>''default''\<close> and no context, to 16 bytes.\<close>

definition shortBlob :: "byte list" where
  "shortBlob = deriveKey (toy []) kms0 ''default'' None @ replicate 16 (CHR ''x'')"

section \<open>Properties of the canonical encoding\<close>

lemma rangeKeys_eq: "rangeKeys c acc = acc @ map fst c"
  by (induction c arbitrary: acc) auto

lemma AppendTo_loop_prefix:
  "AppendTo_loop c len i ks out = out @ AppendTo_loop c len i ks []"
proof (induction ks arbitrary: i out)
  case Nil
  show ?case by simp
next
  case (Cons k ks)
  show ?case
    by (simp add: Let_def Cons.IH [of "Suc i" "_ @ _"] Cons.IH [of "Suc i" "_ # _"])
qed

text \<open>
  On the buffer writer the loop of \<^verbatim>\<open>WriteTo\<close> writes what the loop of \<^verbatim>\<open>AppendTo\<close>
  appends. The index \<open>i\<close> has to be the position of the head of \<open>ks\<close> in the sorted keys:
  one loop drops the comma of the entry at \<open>len - 1\<close>, the other adds a comma before it.
\<close>

lemma WriteTo_loop_buffer:
  "i + length ks = len \<Longrightarrow>
   WriteTo_loop bufferWrite c len i ks w n =
     (w @ AppendTo_loop c len i ks [], n + int (length (AppendTo_loop c len i ks [])), None)"
  unfolding bufferWrite_def
proof (induction ks arbitrary: i w n)
  case Nil
  show ?case by simp
next
  case (Cons k ks)
  have step: "Suc i + length ks = len" using Cons.prems by simp
  show ?case
  proof (cases "ks = []")
    case True
    then have "int i = int len - 1" using Cons.prems by simp
    then show ?thesis using True
      by (simp add: Let_def numeral_eq_Suc)
  next
    case False
    then have ne: "int i \<noteq> int len - 1" and lt: "int i < int len - 1"
      using Cons.prems by (cases ks; simp)+
    show ?thesis
      using ne lt
      by (simp add: Let_def Cons.IH [OF step]
          AppendTo_loop_prefix [of c len "Suc i" ks "_ # _"])
  qed
qed

lemma WriteTo_buffer_sorted:
  "WriteTo bufferWrite c w =
     (AppendTo_sorted c w, int (length (AppendTo_sorted c w)) - int (length w), None)"
  unfolding WriteTo_def bufferWrite_def
  by (simp add: AppendTo_sorted_def Let_def
      WriteTo_loop_buffer [unfolded bufferWrite_def] AppendTo_loop_prefix [of c _ 0 _ "_ @ _"])

lemma AppendTo_eq_sorted: "AppendTo c dst = AppendTo_sorted c dst"
proof -
  consider "c = []" | k v where "c = [(k, v)]" | "1 < length c"
    by (cases c; cases "tl c"; force)
  then show ?thesis
  proof cases
    case 1
    then show ?thesis by (simp add: AppendTo_def AppendTo_sorted_def)
  next
    case 2
    then show ?thesis by (simp add: AppendTo_def AppendTo_sorted_def index_def)
  next
    case 3
    then show ?thesis by (auto simp add: AppendTo_def)
  qed
qed

lemma AppendTo_sorted_prefix: "AppendTo_sorted c dst = dst @ AppendTo_sorted c []"
  by (simp add: AppendTo_sorted_def Let_def AppendTo_loop_prefix [of c _ 0 _ "_ @ _"]
      AppendTo_loop_prefix [of c _ 0 _ "_ # _"])

text \<open>Two entry lists of the same map agree on every lookup and on the sorted keys.\<close>

lemma index_eq:
  assumes "distinct (map fst c1)" "distinct (map fst c2)" "set c1 = set c2"
  shows "index c1 = index c2"
proof -
  have "map_of c1 = map_of c2"
    using assms by (simp add: map_of_inject_set)
  then show ?thesis by (simp add: index_def fun_eq_iff)
qed

lemma sortedKeys_eq:
  assumes "distinct (map fst c1)" "distinct (map fst c2)" "set c1 = set c2"
  shows "sort (rangeKeys c1 []) = sort (rangeKeys c2 [])"
proof (rule sorted_distinct_set_unique)
  show "set (sort (rangeKeys c1 [])) = set (sort (rangeKeys c2 []))"
    using assms(3) by (simp add: rangeKeys_eq)
qed (use assms in \<open>simp_all add: rangeKeys_eq\<close>)

lemma WriteTo_loop_index:
  "index c1 = index c2 \<Longrightarrow>
   WriteTo_loop wr c1 len i ks w n = WriteTo_loop wr c2 len i ks w n"
  by (induction ks arbitrary: i w n) (simp_all add: Let_def split: prod.splits option.splits)

lemma AppendTo_loop_index:
  "index c1 = index c2 \<Longrightarrow>
   AppendTo_loop c1 len i ks out = AppendTo_loop c2 len i ks out"
  by (induction ks arbitrary: i out) (simp_all add: Let_def)

text \<open>
  Claim C3. Two contexts holding exactly the same key/value pairs, whatever the order in
  which their entries are visited, have the same canonical encoding: \<^verbatim>\<open>WriteTo\<close> does the
  same to any writer, and \<^verbatim>\<open>AppendTo\<close> returns the same bytes.
\<close>

theorem canonical_encoding_order_independent:
  assumes "distinct (map fst c1)" and "distinct (map fst c2)" and "set c1 = set c2"
  shows "WriteTo wr c1 w = WriteTo wr c2 w \<and> AppendTo c1 dst = AppendTo c2 dst"
proof -
  have idx: "index c1 = index c2" and keys: "sort (rangeKeys c1 []) = sort (rangeKeys c2 [])"
    using assms by (rule index_eq, rule sortedKeys_eq)
  have "WriteTo wr c1 w = WriteTo wr c2 w"
    by (simp add: WriteTo_def keys WriteTo_loop_index [OF idx])
  moreover have "AppendTo_sorted c1 dst = AppendTo_sorted c2 dst"
    by (simp add: AppendTo_sorted_def keys AppendTo_loop_index [OF idx])
  ultimately show ?thesis
    by (simp add: AppendTo_eq_sorted)
qed

theorem canonical_encoding_order_independent_witness:
  "distinct (map fst [(''b'', ''2''), (''a'', ''1'')])
   \<and> distinct (map fst [(''a'', ''1''), (''b'', ''2'')])
   \<and> set [(''b'', ''2''), (''a'', ''1'')] = set [(''a'', ''1''), (''b'', ''2'')]
   \<and> WriteTo bufferWrite [(''b'', ''2''), (''a'', ''1'')] []
       = WriteTo bufferWrite [(''a'', ''1''), (''b'', ''2'')] []
   \<and> AppendTo [(''b'', ''2''), (''a'', ''1'')] [] = AppendTo [(''a'', ''1''), (''b'', ''2'')] []
   \<and> AppendTo [(''b'', ''2''), (''a'', ''1'')] []
       = ''{'' @ [quote] @ ''a'' @ [quote] @ '':'' @ [quote] @ ''1'' @ [quote] @ '',''
           @ [quote] @ ''b'' @ [quote] @ '':'' @ [quote] @ ''2'' @ [quote] @ ''}''"
proof -
  have d1: "distinct (map fst [(''b'', ''2''), (''a'', ''1'')])" by simp
  have d2: "distinct (map fst [(''a'', ''1''), (''b'', ''2'')])" by simp
  have s: "set [(''b'', ''2''), (''a'', ''1'')] = set [(''a'', ''1''), (''b'', ''2'')]" by auto
  have v: "AppendTo [(''b'', ''2''), (''a'', ''1'')] []
       = ''{'' @ [quote] @ ''a'' @ [quote] @ '':'' @ [quote] @ ''1'' @ [quote] @ '',''
           @ [quote] @ ''b'' @ [quote] @ '':'' @ [quote] @ ''2'' @ [quote] @ ''}''"
    by code_simp
  show ?thesis
    using d1 d2 s v
      canonical_encoding_order_independent [OF d1 d2 s, of bufferWrite "[]" "[]"]
    by simp
qed

text \<open>
  Claim C4. For every context, what \<^verbatim>\<open>WriteTo\<close> writes to a writer that never fails is
  what \<^verbatim>\<open>AppendTo\<close> appends after the prefix it is given; the stream form reports the
  number of bytes of the encoding and no error. For a context of one entry the fast path of
  \<^verbatim>\<open>AppendTo\<close> returns what the general sorted path returns.
\<close>

theorem WriteTo_agrees_with_AppendTo:
  "WriteTo bufferWrite c w = (w @ AppendTo c [], int (length (AppendTo c [])), None)
   \<and> AppendTo c dst = dst @ AppendTo c []
   \<and> (length c = 1 \<longrightarrow> AppendTo c dst = AppendTo_sorted c dst)"
proof -
  have "AppendTo c dst = dst @ AppendTo c []"
    using AppendTo_sorted_prefix [of c dst] by (simp add: AppendTo_eq_sorted)
  moreover have "WriteTo bufferWrite c w = (w @ AppendTo c [], int (length (AppendTo c [])), None)"
    using AppendTo_sorted_prefix [of c w]
    by (simp add: WriteTo_buffer_sorted AppendTo_eq_sorted)
  ultimately show ?thesis
    by (simp add: AppendTo_eq_sorted)
qed

theorem WriteTo_agrees_with_AppendTo_witness:
  "length [(''bucket'', ''b1'')] = 1
   \<and> AppendTo [(''bucket'', ''b1'')] ''default'' = AppendTo_sorted [(''bucket'', ''b1'')] ''default''
   \<and> WriteTo bufferWrite [(''bucket'', ''b1'')] ''default''
       = (''default'' @ AppendTo [(''bucket'', ''b1'')] [],
          int (length (AppendTo [(''bucket'', ''b1'')] [])), None)"
proof -
  have one: "length [(''bucket'', ''b1'')] = 1" by simp
  from WriteTo_agrees_with_AppendTo [of "[(''bucket'', ''b1'')]" "''default''" "''default''"] one
  show ?thesis by blast
qed

section \<open>Properties of the master-key backend\<close>

lemma appendInto_full: "length out = 32 \<Longrightarrow> appendInto zeroKey out = out"
  by (simp add: appendInto_def zeroKey_def)

lemma length_appendInto: "length (appendInto key out) = length key"
  by (simp add: appendInto_def)

lemma length_deriveKey: "length (deriveKey P kms kid ctx) = 32"
  by (simp add: deriveKey_def Let_def length_appendInto) (simp add: zeroKey_def)

text \<open>When \<^verbatim>\<open>GenerateKey\<close> returns, and what it returns then.\<close>

lemma GenerateKey_Returned:
  "GenerateKey P kms kid ctx = Returned (key, sealed, err) \<longleftrightarrow>
     32 \<le> length (rand_Reader P) \<and> key = take 32 (rand_Reader P) \<and>
     sio_Encrypt P (deriveKey P kms kid ctx) key = (sealed, None) \<and>
     length sealed = 64 \<and> err = None"
  by (auto simp add: GenerateKey_def ReadFull_def zeroKey_def Let_def split: prod.splits)

text \<open>The error \<^verbatim>\<open>UnsealKey\<close> returns is the error of the decryption, whatever the length.\<close>

lemma UnsealKey_err:
  "snd (UnsealKey P kms kid sealedKey ctx) =
     snd (sio_DecryptBuffer P (deriveKey P kms kid ctx) sealedKey)"
  by (simp add: UnsealKey_def Let_def split: prod.splits)

text \<open>The key \<^verbatim>\<open>UnsealKey\<close> returns is what the decryption left in the array.\<close>

lemma UnsealKey_key:
  "fst (UnsealKey P kms kid sealedKey ctx) =
     sio_DecryptBuffer_dst P zeroKey (deriveKey P kms kid ctx) sealedKey"
  by (simp add: UnsealKey_def Let_def split: prod.splits)

text \<open>
  Each method, run as a transformer on a backend, returns what the function of the same name
  above returns on that backend, and ends in the state its body leaves.
\<close>

lemma run_state_DefaultKeyID_m: "run_state DefaultKeyID_m kms = (DefaultKeyID kms, kms)"
  by (simp add: DefaultKeyID_m_def DefaultKeyID_def)

lemma run_state_CreateKey_m: "run_state (CreateKey_m kid) kms = (CreateKey kms kid, kms)"
  by (simp add: CreateKey_m_def CreateKey_def)

lemma run_state_Info_m: "run_state Info_m kms = (Info kms, kms)"
  by (simp add: Info_m_def Info_def)

lemma run_state_deriveKey_m:
  "run_state (deriveKey_m P kid ctx) kms = (deriveKey P kms kid ctx, kms)"
  by (simp add: deriveKey_m_def deriveKey_def Let_def)

lemma run_state_GenerateKey_m:
  "run_state (GenerateKey_m P kid ctx) kms = (GenerateKey P kms kid ctx, kms)"
  by (simp add: GenerateKey_m_def GenerateKey_def run_state_deriveKey_m Let_def
      split: prod.splits)

lemma run_state_UnsealKey_m:
  "run_state (UnsealKey_m P kid sealedKey ctx) kms = (UnsealKey P kms kid sealedKey ctx, kms)"
  by (simp add: UnsealKey_m_def UnsealKey_def run_state_deriveKey_m Let_def
      split: prod.splits)

lemma invoke_backend: "snd (run_state (invoke P c) kms) = kms"
  by (cases c)
     (simp_all add: run_state_DefaultKeyID_m run_state_CreateKey_m run_state_Info_m
        run_state_GenerateKey_m run_state_UnsealKey_m)

lemma run_backend: "run kms cs = kms"
proof (induction cs arbitrary: kms)
  case Nil
  show ?case by simp
next
  case (Cons pc cs)
  obtain P c where pc: "pc = (P, c)" by (cases pc)
  obtain r kms' where rs: "run_state (invoke P c) kms = (r, kms')"
    by (cases "run_state (invoke P c) kms")
  then have "kms' = kms"
    using invoke_backend [of P c kms] by simp
  then show ?case
    using pc rs by (simp add: Cons.IH split: response.splits outcome.splits)
qed



lemma toy_rejects:
  "\<forall>k k' p c. length k = 32 \<and> length k' = 32 \<and> k' \<noteq> k \<and> sio_Encrypt (toy r) k p = (c, None)
      \<longrightarrow> snd (sio_DecryptBuffer (toy r) k' c) \<noteq> None"
  by (auto simp add: toy_def toy_Encrypt_def toy_DecryptBuffer_def)

text \<open>
  Claim C1. \<^verbatim>\<open>UnsealKey\<close> is to return a key without an error only if the decryption
  succeeds and yields exactly 32 bytes, and an error otherwise. The code tests the length
  of the plaintext, but in that branch it returns the error of the decryption, which is
  \<^verbatim>\<open>nil\<close> when the decryption succeeded. Evaluated on a blob that opens to 16 bytes:
  the decryption succeeds with 16 bytes, and \<^verbatim>\<open>UnsealKey\<close> returns the 16 bytes padded
  with zeros to 32, with no error.
\<close>

theorem UnsealKey_short_plaintext_no_error:
  "sio_DecryptBuffer (toy []) (deriveKey (toy []) kms0 ''default'' None) shortBlob
     = (replicate 16 (CHR ''x''), None)
   \<and> UnsealKey (toy []) kms0 ''default'' shortBlob None
     = (replicate 16 (CHR ''x'') @ replicate 16 (CHR 0x00), None)"
  by code_simp

theorem UnsealKey_short_plaintext_no_error_witness:
  "snd (sio_DecryptBuffer (toy []) (deriveKey (toy []) kms0 ''default'' None) shortBlob) = None
   \<and> length (fst (sio_DecryptBuffer (toy []) (deriveKey (toy []) kms0 ''default'' None) shortBlob))
       \<noteq> 32
   \<and> snd (UnsealKey (toy []) kms0 ''default'' shortBlob None) = None"
  using UnsealKey_short_plaintext_no_error by simp



text \<open>
  Claim C5. The derived key is the HMAC-SHA-256 tag, under the master key, of the bytes of
  the key ID followed by the canonical encoding of the context (the tag of SHA-256 being 32
  bytes long); the derived key is always 32 bytes long; and a \<^verbatim>\<open>nil\<close> context derives
  the same key as the empty context.
\<close>

theorem deriveKey_is_hmac:
  assumes "length (hmac_sha256 P (masterKey kms) (kid @ AppendTo c [])) = 32"
  shows "deriveKey P kms kid (Some c) = hmac_sha256 P (masterKey kms) (kid @ AppendTo c [])
         \<and> length (deriveKey P kms kid ctx) = 32
         \<and> deriveKey P kms kid None = deriveKey P kms kid (Some [])"
  using assms
  by (simp add: deriveKey_def Let_def hmac_New_def appendInto_full length_appendInto)
     (simp add: zeroKey_def)

theorem deriveKey_is_hmac_witness:
  "length (hmac_sha256 (toy []) (masterKey kms0) (''default'' @ AppendTo [(''x'', ''1'')] [])) = 32
   \<and> deriveKey (toy []) kms0 ''default'' (Some [(''x'', ''1'')])
       = toy_hmac zeroKey (''default'' @ AppendTo [(''x'', ''1'')] [])
   \<and> deriveKey (toy []) kms0 ''default'' None = deriveKey (toy []) kms0 ''default'' (Some [])"
proof -
  have h: "length (hmac_sha256 (toy []) (masterKey kms0) (''default'' @ AppendTo [(''x'', ''1'')] [])) = 32"
    by code_simp
  show ?thesis
    using h deriveKey_is_hmac [OF h] by (simp add: toy_def kms0_def NewMasterKey_def)
qed

text \<open>
  Claim C6. Whenever \<^verbatim>\<open>GenerateKey\<close> returns, the sealed blob it returns is exactly 64
  bytes long; and when the entropy source delivers its 32 bytes and the sealing writes any
  other number of bytes, the call ends in the fatal-failure handler and returns nothing.
\<close>

theorem GenerateKey_sealed_length:
  "(GenerateKey P kms kid ctx = Returned (key, sealed, err) \<longrightarrow> length sealed = 64)
   \<and> (32 \<le> length (rand_Reader P')
        \<and> length (fst (sio_Encrypt P' (deriveKey P' kms' kid' ctx') (take 32 (rand_Reader P')))) \<noteq> 64
      \<longrightarrow> GenerateKey P' kms' kid' ctx' = Fatal (Error ''KMS: unable to encrypt data key''))"
  by (auto simp add: GenerateKey_Returned)
     (auto simp add: GenerateKey_def ReadFull_def zeroKey_def Let_def split: prod.splits)

theorem GenerateKey_sealed_length_witness:
  "GenerateKey (toy key0) kms0 ''default'' ctx0 = Returned (key0, blob0, None)
   \<and> length blob0 = 64
   \<and> 32 \<le> length (rand_Reader (bare key0))
   \<and> length (fst (sio_Encrypt (bare key0) (deriveKey (bare key0) kms0 ''default'' ctx0)
                  (take 32 (rand_Reader (bare key0))))) \<noteq> 64
   \<and> GenerateKey (bare key0) kms0 ''default'' ctx0 = Fatal (Error ''KMS: unable to encrypt data key'')"
proof -
  have gen: "GenerateKey (toy key0) kms0 ''default'' ctx0 = Returned (key0, blob0, None)"
    by code_simp
  have r: "32 \<le> length (rand_Reader (bare key0))"
    by code_simp
  have n: "length (fst (sio_Encrypt (bare key0) (deriveKey (bare key0) kms0 ''default'' ctx0)
                  (take 32 (rand_Reader (bare key0))))) \<noteq> 64"
    by code_simp
  from GenerateKey_sealed_length [of "toy key0" kms0 "''default''" ctx0 key0 blob0 None
              "bare key0" kms0 "''default''" ctx0] gen r n
  show ?thesis by blast
qed

text \<open>
  Claim C7. If opening rejects a blob sealed under another 32-byte key, then a blob returned
  by \<^verbatim>\<open>GenerateKey\<close> for a key ID and a context is not unsealed with a key ID and a
  context that derive a different key: \<^verbatim>\<open>UnsealKey\<close> returns an error.
\<close>

theorem UnsealKey_wrong_binding_fails:
  assumes rejects:
    "\<forall>k k' p c. length k = 32 \<and> length k' = 32 \<and> k' \<noteq> k \<and> sio_Encrypt P k p = (c, None)
       \<longrightarrow> snd (sio_DecryptBuffer P k' c) \<noteq> None"
    and gen: "GenerateKey P kms kid ctx = Returned (dataKey, sealed, err)"
    and differ: "deriveKey P kms kid' ctx' \<noteq> deriveKey P kms kid ctx"
  shows "\<exists>e. snd (UnsealKey P kms kid' sealed ctx') = Some e"
proof -
  from gen have enc: "sio_Encrypt P (deriveKey P kms kid ctx) dataKey = (sealed, None)"
    by (auto simp add: GenerateKey_Returned)
  with rejects differ
  have "snd (sio_DecryptBuffer P (deriveKey P kms kid' ctx') sealed) \<noteq> None"
    using length_deriveKey by blast
  then show ?thesis
    by (simp add: UnsealKey_err)
qed

theorem UnsealKey_wrong_binding_fails_witness:
  "GenerateKey (toy key0) kms0 ''A'' ctxX = Returned (key0, blobA, None)
   \<and> deriveKey (toy key0) kms0 ''B'' ctxX \<noteq> deriveKey (toy key0) kms0 ''A'' ctxX
   \<and> (\<exists>e. snd (UnsealKey (toy key0) kms0 ''B'' blobA ctxX) = Some e)"
proof -
  have gen: "GenerateKey (toy key0) kms0 ''A'' ctxX = Returned (key0, blobA, None)"
    by code_simp
  have differ: "deriveKey (toy key0) kms0 ''B'' ctxX \<noteq> deriveKey (toy key0) kms0 ''A'' ctxX"
    by code_simp
  from UnsealKey_wrong_binding_fails [OF toy_rejects gen differ] gen differ
  show ?thesis by blast
qed

text \<open>
  Claim C8. For every key ID, \<^verbatim>\<open>CreateKey\<close> on the master-key backend returns the error
  that creating keys is not supported, and never \<^verbatim>\<open>nil\<close>.
\<close>

theorem CreateKey_unsupported:
  "CreateKey kms kid = Some (Error ''crypto: creating keys is not supported by a static master key'')
   \<and> CreateKey kms kid \<noteq> None"
  by (simp add: CreateKey_def)

text \<open>
  Claim C9. No call of \<^verbatim>\<open>DefaultKeyID\<close>, \<^verbatim>\<open>CreateKey\<close>, \<^verbatim>\<open>GenerateKey\<close>,
  \<^verbatim>\<open>UnsealKey\<close> or \<^verbatim>\<open>Info\<close> changes the backend: each method body, run as a
  transformer of the backend, ends in the state it started from, whatever the primitives do
  and also when the call ends in the fatal-failure handler; and after every sequence of
  calls the key ID and the master key of the backend are what they were.
\<close>

theorem backend_state_unchanged:
  "snd (run_state DefaultKeyID_m kms) = kms
   \<and> snd (run_state (CreateKey_m kid) kms) = kms
   \<and> snd (run_state (GenerateKey_m P kid ctx) kms) = kms
   \<and> snd (run_state (UnsealKey_m P kid sealedKey ctx) kms) = kms
   \<and> snd (run_state Info_m kms) = kms
   \<and> run kms cs = kms
   \<and> keyID (run kms cs) = keyID kms
   \<and> masterKey (run kms cs) = masterKey kms"
  by (simp add: run_state_DefaultKeyID_m run_state_CreateKey_m run_state_Info_m
      run_state_GenerateKey_m run_state_UnsealKey_m run_backend)

theorem backend_state_unchanged_witness:
  "run kms0
     [(toy key0, CallGenerateKey ''default'' ctx0), (toy [], CallUnsealKey ''default'' blob0 ctx0),
      (toy [], CallCreateKey ''other''), (toy [], CallInfo), (toy [], CallDefaultKeyID),
      (toy [], CallGenerateKey ''default'' ctx0), (toy [], CallInfo)] = kms0
   \<and> snd (run_state (GenerateKey_m (toy key0) ''default'' ctx0) kms0) = kms0
   \<and> snd (run_state (UnsealKey_m (toy []) ''default'' blob0 ctx0) kms0) = kms0"
  using backend_state_unchanged [of kms0 "''default''" "toy key0" ctx0]
    backend_state_unchanged [of kms0 "''default''" "toy []" ctx0 blob0
      "[(toy key0, CallGenerateKey ''default'' ctx0), (toy [], CallUnsealKey ''default'' blob0 ctx0),
        (toy [], CallCreateKey ''other''), (toy [], CallInfo), (toy [], CallDefaultKeyID),
        (toy [], CallGenerateKey ''default'' ctx0), (toy [], CallInfo)]"]
  by blast

text \<open>
  Claim C10. \<^verbatim>\<open>DefaultKeyID\<close> on the backend made by \<^verbatim>\<open>NewMasterKey\<close> from a key ID
  and a key returns that key ID, also after any sequence of calls on the backend.
\<close>

theorem DefaultKeyID_NewMasterKey:
  "DefaultKeyID (NewMasterKey kid key) = kid
   \<and> DefaultKeyID (run (NewMasterKey kid key) cs) = kid"
  by (simp add: run_backend DefaultKeyID_def NewMasterKey_def)

theorem DefaultKeyID_NewMasterKey_witness:
  "DefaultKeyID (NewMasterKey ''default'' zeroKey) = ''default''
   \<and> DefaultKeyID (run (NewMasterKey ''default'' zeroKey)
        [(toy [], CallCreateKey ''other''), (toy key0, CallGenerateKey ''other'' ctx0),
         (toy [], CallDefaultKeyID)]) = ''default''"
  using DefaultKeyID_NewMasterKey [of "''default''" zeroKey
      "[(toy [], CallCreateKey ''other''), (toy key0, CallGenerateKey ''other'' ctx0),
        (toy [], CallDefaultKeyID)]"]
  by blast

end
